theory Spec2Isabelle
  imports Complex_Main "HOL-Library.AList"
begin

section \<open>CineGen storyboarder: image normalizer, generation client, sequential orchestrator\<close>

text \<open>
  The development embeds three pieces of the application:
  \<^item> \<open>resizeImage\<close> and \<open>generateStoryboardFrame\<close> of \<open>services/geminiService.ts\<close>;
  \<^item> \<open>validateAndParseJson\<close>, \<open>handleGenerate\<close> and \<open>handleClear\<close> of \<open>App.tsx\<close>.

  Everything the browser or the network decides is a field of the record \<open>env\<close>: the
  decoder of images, the canvas, \<open>JSON.parse\<close>, \<open>Math.random\<close>, the environment variable
  and the remote model. A thrown error or a rejected promise is the left summand of a sum
  type and carries the \<open>message\<close> of the error.
\<close>

subsection \<open>JavaScript values\<close>

text \<open>
  The value \<open>JSON.parse\<close> returns. A number carries the value of the parsed double (so
  \<open>-0\<close> and an underflowing literal are \<open>0\<close>). An object is the list of its own
  properties, read with \<open>map_of\<close>.
\<close>

datatype json =
    JNull
  | JBool bool
  | JNumber rat
  | JString string
  | JArray "json list"
  | JObject "(string \<times> json) list"

type_synonym js_object = "(string \<times> json) list"

text \<open>\<open>obj.k\<close> on an object: \<open>None\<close> is \<open>undefined\<close>.\<close>

definition get_prop :: "js_object \<Rightarrow> string \<Rightarrow> json option" where
  "get_prop obj k = map_of obj k"

text \<open>ToBoolean, as \<open>&&\<close>, \<open>!\<close> and \<open>if\<close> apply it.\<close>

fun truthy :: "json option \<Rightarrow> bool" where
  "truthy None = False"
| "truthy (Some JNull) = False"
| "truthy (Some (JBool b)) = b"
| "truthy (Some (JNumber n)) = (n \<noteq> 0)"
| "truthy (Some (JString s)) = (s \<noteq> [])"
| "truthy (Some (JArray xs)) = True"
| "truthy (Some (JObject kvs)) = True"

text \<open>
  \<open>a === b\<close> on property values. Primitives compare by value; two arrays or objects are
  equal only when they are the same reference, which a value cannot tell, so they compare
  unequal here (the ids compared in this program are always strings).
\<close>

fun strict_equals :: "json option \<Rightarrow> json option \<Rightarrow> bool" where
  "strict_equals (Some (JArray xs)) b = False"
| "strict_equals (Some (JObject kvs)) b = False"
| "strict_equals a b = (a = b)"

text \<open>The string enum \<open>GenerationStatus\<close> of \<open>types.ts\<close> and the value each member has.\<close>

datatype GenerationStatus = IDLE | PENDING | SUCCESS | ERROR

fun status_value :: "GenerationStatus \<Rightarrow> json" where
  "status_value IDLE = JString ''IDLE''"
| "status_value PENDING = JString ''PENDING''"
| "status_value SUCCESS = JString ''SUCCESS''"
| "status_value ERROR = JString ''ERROR''"

subsection \<open>The response of the remote model\<close>

text \<open>
  The optional fields of the SDK's response types; \<open>None\<close> is an absent field.
\<close>

record blob =
  mimeType :: "string option"
  data :: "string option"

record part =
  part_text :: "string option"
  inlineData :: "blob option"

record content =
  parts :: "part list option"

record candidate =
  content :: "content option"

record response =
  candidates :: "candidate list option"

text \<open>The TypeErrors the response parsing can run into; the engine words their messages.\<close>

datatype type_error =
    ReadPropertyOfUndefined string
  | NotIterable

text \<open>What \<open>generateContent\<close> is called with; \<open>shot\<close> stands for the prompt text composed
  from its \<open>shot_type\<close>, \<open>aspect_ratio\<close> and \<open>prompt\<close>.\<close>

record request =
  model :: string
  shot :: js_object
  image_mimeType :: string
  image_data :: string

subsection \<open>The environment\<close>

record env =
  image_load :: "string \<Rightarrow> (nat \<times> nat) option"
    \<comment> \<open>\<open>onload\<close> with \<open>img.width\<close> and \<open>img.height\<close>, or \<open>onerror\<close> (\<open>None\<close>)\<close>
  getContext_2d :: "nat \<Rightarrow> nat \<Rightarrow> bool"
    \<comment> \<open>whether a canvas of this size yields a 2d context\<close>
  toDataURL :: "string \<Rightarrow> nat \<Rightarrow> nat \<Rightarrow> string \<Rightarrow> rat \<Rightarrow> string"
    \<comment> \<open>the image drawn over a canvas of this width and height, encoded with this type and quality\<close>
  JSON_parse :: "string \<Rightarrow> json option"
    \<comment> \<open>\<open>None\<close>: a SyntaxError is thrown\<close>
  API_KEY :: "string option"
    \<comment> \<open>\<open>process.env.API_KEY\<close>\<close>
  Math_random_base36 :: "nat \<Rightarrow> string"
    \<comment> \<open>\<open>Math.random().toString(36)\<close> of the n-th call\<close>
  generateContent :: "nat \<Rightarrow> request \<Rightarrow> string + response"
    \<comment> \<open>the n-th call of the remote model: rejected with a message, or a response\<close>
  engine_message :: "type_error \<Rightarrow> string"

subsection \<open>Image normalizer (\<open>resizeImage\<close>)\<close>

text \<open>\<open>Math.round\<close>: the nearest integer, a half rounded up.\<close>

definition Math_round :: "rat \<Rightarrow> int" where
  "Math_round x = \<lfloor>x + 1 / 2\<rfloor>"

text \<open>
  The dimensions computed in \<open>img.onload\<close>. The quotient is the exact one: the double
  division of the source rounds to the same integer for every image a browser decodes.
\<close>

definition resize_dims :: "nat \<Rightarrow> nat \<Rightarrow> nat \<Rightarrow> nat \<Rightarrow> nat \<times> nat" where
  "resize_dims width height maxWidth maxHeight =
     (if width > height then
        (if width > maxWidth
         then (maxWidth, nat (Math_round (of_nat (height * maxWidth) / of_nat width)))
         else (width, height))
      else
        (if height > maxHeight
         then (nat (Math_round (of_nat (width * maxHeight) / of_nat height)), maxHeight)
         else (width, height)))"

text \<open>The promise of \<open>resizeImage\<close> is only ever resolved: the result is the resolved string.\<close>

definition resizeImage :: "env \<Rightarrow> string \<Rightarrow> nat \<Rightarrow> nat \<Rightarrow> string" where
  "resizeImage E base64Str maxWidth maxHeight =
     (case image_load E base64Str of
        None \<Rightarrow> base64Str
      | Some (w, h) \<Rightarrow>
          (case resize_dims w h maxWidth maxHeight of
             (width, height) \<Rightarrow>
               if getContext_2d E width height
               then toDataURL E base64Str width height ''image/jpeg'' (8 / 10)
               else base64Str))"

text \<open>The default arguments: \<open>maxWidth = 1024, maxHeight = 1024\<close>.\<close>

definition resizeImage_default :: "env \<Rightarrow> string \<Rightarrow> string" where
  "resizeImage_default E base64Str = resizeImage E base64Str 1024 1024"

subsection \<open>Generation client (\<open>generateStoryboardFrame\<close>)\<close>

text \<open>\<open>s.replace(/^data:image\/(png|jpeg|jpg);base64,/, '')\<close>.\<close>

definition strip_data_prefix :: "string \<Rightarrow> string" where
  "strip_data_prefix s =
     (if take 22 s = ''data:image/png;base64,'' then drop 22 s
      else if take 23 s = ''data:image/jpeg;base64,'' then drop 23 s
      else if take 22 s = ''data:image/jpg;base64,'' then drop 22 s
      else s)"

definition no_image_message :: string where
  "no_image_message =
     ''No image data found in response. The model may have blocked the request or returned only text.''"

text \<open>The loop over \<open>parts\<close>: the data of the first part with \<open>inlineData\<close> and truthy data.\<close>

fun first_image :: "part list \<Rightarrow> string option" where
  "first_image [] = None"
| "first_image (p # ps) =
     (case inlineData p of
        None \<Rightarrow> first_image ps
      | Some b \<Rightarrow>
          (case data b of
             None \<Rightarrow> first_image ps
           | Some d \<Rightarrow> if d \<noteq> [] then Some d else first_image ps))"

text \<open>Lines 104 to 115: the data URI, or the message of the error thrown.\<close>

definition extract_image :: "env \<Rightarrow> response \<Rightarrow> string + string" where
  "extract_image E r =
     (case candidates r of
        None \<Rightarrow> Inl no_image_message
      | Some [] \<Rightarrow> Inl no_image_message
      | Some (c # cs) \<Rightarrow>
          (case content c of
             None \<Rightarrow> Inl (engine_message E (ReadPropertyOfUndefined ''parts''))
           | Some ct \<Rightarrow>
               (case parts ct of
                  None \<Rightarrow> Inl (engine_message E NotIterable)
                | Some ps \<Rightarrow>
                    (case first_image ps of
                       Some d \<Rightarrow> Inr (''data:image/png;base64,'' @ d)
                     | None \<Rightarrow> Inl no_image_message))))"

definition build_request :: "env \<Rightarrow> string \<Rightarrow> js_object \<Rightarrow> request" where
  "build_request E referenceImageBase64 sh =
     (let optimizedImage = resizeImage_default E referenceImageBase64;
          cleanBase64 = strip_data_prefix optimizedImage
      in \<lparr>model = ''gemini-2.5-flash-image'', shot = sh,
          image_mimeType = ''image/jpeg'', image_data = cleanBase64\<rparr>)"

text \<open>The body of the \<open>try\<close> block; \<open>n\<close> counts the calls of the remote model so far.\<close>

definition try_block :: "env \<Rightarrow> nat \<Rightarrow> string \<Rightarrow> js_object \<Rightarrow> string + string" where
  "try_block E n referenceImageBase64 sh =
     (case generateContent E n (build_request E referenceImageBase64 sh) of
        Inl m \<Rightarrow> Inl m
      | Inr r \<Rightarrow> extract_image E r)"

text \<open>
  The \<open>catch\<close>: \<open>throw new Error(error.message || "Failed to generate image")\<close>.
  An error without a message counts as one with the empty message, which is as falsy.
\<close>

definition generateStoryboardFrame :: "env \<Rightarrow> nat \<Rightarrow> string \<Rightarrow> js_object \<Rightarrow> string + string" where
  "generateStoryboardFrame E n referenceImageBase64 sh =
     (case try_block E n referenceImageBase64 sh of
        Inl m \<Rightarrow> Inl (if m \<noteq> [] then m else ''Failed to generate image'')
      | Inr url \<Rightarrow> Inr url)"

definition isApiKeyAvailable :: "env \<Rightarrow> bool" where
  "isApiKeyAvailable E = (case API_KEY E of None \<Rightarrow> False | Some k \<Rightarrow> k \<noteq> [])"

subsection \<open>Application state\<close>

text \<open>
  The React state of \<open>App\<close>, the alerts shown, the calls of \<open>generateStoryboardFrame\<close>
  made so far (each with its outcome) and the number of \<open>Math.random\<close> calls so far.
\<close>

record world =
  refImage :: "string option"
  jsonInput :: string
  shots :: "js_object list"
  isGenerating :: bool
  validationError :: "string option"
  alerts :: "string list"
  calls :: "(js_object \<times> (string + string)) list"
  randoms :: nat

subsection \<open>Validation (\<open>validateAndParseJson\<close>)\<close>

text \<open>
  \<open>item.k\<close> for \<open>k\<close> one of \<open>shot_type\<close> and \<open>prompt\<close>: a TypeError on \<open>null\<close>,
  \<open>undefined\<close> on a boolean, number, string or array (none has such a property).
\<close>

fun get_member :: "json \<Rightarrow> string \<Rightarrow> type_error + json option" where
  "get_member JNull k = Inl (ReadPropertyOfUndefined k)"
| "get_member (JObject kvs) k = Inr (get_prop kvs k)"
| "get_member v k = Inr None"

text \<open>\<open>item.shot_type && item.prompt\<close>, read as a boolean; \<open>None\<close>: it throws.\<close>

definition item_ok :: "json \<Rightarrow> bool option" where
  "item_ok item =
     (case get_member item ''shot_type'' of
        Inl e \<Rightarrow> None
      | Inr a \<Rightarrow>
          if truthy a
          then (case get_member item ''prompt'' of Inl e \<Rightarrow> None | Inr b \<Rightarrow> Some (truthy b))
          else Some False)"

text \<open>\<open>parsed.every(...)\<close>: stops at the first item that fails or throws.\<close>

fun every_item_ok :: "json list \<Rightarrow> bool option" where
  "every_item_ok [] = Some True"
| "every_item_ok (item # items) =
     (case item_ok item of
        None \<Rightarrow> None
      | Some False \<Rightarrow> Some False
      | Some True \<Rightarrow> every_item_ok items)"

definition must_be_array_message :: string where
  "must_be_array_message = ''JSON must be an array of shot objects.''"

definition missing_fields_message :: string where
  "missing_fields_message = ''Each shot must have 'shot_type' and 'prompt' fields.''"

definition invalid_json_message :: string where
  "invalid_json_message = ''Invalid JSON format.''"

definition validateAndParseJson :: "env \<Rightarrow> world \<Rightarrow> json list option \<times> world" where
  "validateAndParseJson E w =
     (case JSON_parse E (jsonInput w) of
        None \<Rightarrow> (None, w\<lparr>validationError := Some invalid_json_message\<rparr>)
      | Some parsed \<Rightarrow>
          (case parsed of
             JArray items \<Rightarrow>
               (case every_item_ok items of
                  None \<Rightarrow> (None, w\<lparr>validationError := Some invalid_json_message\<rparr>)
                | Some False \<Rightarrow> (None, w\<lparr>validationError := Some missing_fields_message\<rparr>)
                | Some True \<Rightarrow> (Some items, w\<lparr>validationError := None\<rparr>))
           | _ \<Rightarrow> (None, w\<lparr>validationError := Some must_be_array_message\<rparr>)))"

subsection \<open>Sequential orchestrator (\<open>handleGenerate\<close>, \<open>handleClear\<close>)\<close>

text \<open>\<open>Math.random().toString(36).substring(7)\<close>, for the n-th call of \<open>Math.random\<close>.\<close>

definition generateId :: "env \<Rightarrow> nat \<Rightarrow> string" where
  "generateId E n = drop 7 (Math_random_base36 E n)"

text \<open>
  \<open>{...config}\<close>: the own properties of an object. Validation lets only objects through
  (\<open>every_item_ok_objects\<close> below); \<open>null\<close>, a boolean and a number spread to nothing,
  and the index properties a string or an array would spread to are left out: none of them
  is a property this program reads.
\<close>

fun spread :: "json \<Rightarrow> js_object" where
  "spread (JObject kvs) = kvs"
| "spread v = []"

text \<open>
  \<open>{...config, id: generateId(), status: GenerationStatus.PENDING}\<close>: a later property
  replaces an earlier one of the same name.
\<close>

definition new_shot :: "env \<Rightarrow> nat \<Rightarrow> json \<Rightarrow> js_object" where
  "new_shot E n config =
     AList.update ''status'' (status_value PENDING)
       (AList.update ''id'' (JString (generateId E n)) (spread config))"

text \<open>\<open>shotConfigs.map(...)\<close>, the first \<open>Math.random\<close> call being the n-th.\<close>

fun initial_shots :: "env \<Rightarrow> nat \<Rightarrow> json list \<Rightarrow> js_object list" where
  "initial_shots E n [] = []"
| "initial_shots E n (config # rest) = new_shot E n config # initial_shots E (Suc n) rest"

text \<open>The two state updates \<open>prev => prev.map(...)\<close> of the loop body.\<close>

definition mark_success :: "js_object \<Rightarrow> string \<Rightarrow> js_object list \<Rightarrow> js_object list" where
  "mark_success sh imageUrl prev =
     map (\<lambda>s. if strict_equals (get_prop s ''id'') (get_prop sh ''id'')
              then AList.update ''imageUrl'' (JString imageUrl)
                     (AList.update ''status'' (status_value SUCCESS) s)
              else s) prev"

definition mark_error :: "js_object \<Rightarrow> string \<Rightarrow> js_object list \<Rightarrow> js_object list" where
  "mark_error sh message prev =
     map (\<lambda>s. if strict_equals (get_prop s ''id'') (get_prop sh ''id'')
              then AList.update ''error'' (JString message)
                     (AList.update ''status'' (status_value ERROR) s)
              else s) prev"

text \<open>The status update that follows a call, for either outcome.\<close>

definition settle :: "js_object \<Rightarrow> string + string \<Rightarrow> js_object list \<Rightarrow> js_object list" where
  "settle sh outcome prev =
     (case outcome of
        Inr imageUrl \<Rightarrow> mark_success sh imageUrl prev
      | Inl message \<Rightarrow> mark_error sh message prev)"

text \<open>One iteration of the loop: the awaited call, then the update of its record.\<close>

definition process_shot :: "env \<Rightarrow> string \<Rightarrow> js_object \<Rightarrow> world \<Rightarrow> world" where
  "process_shot E img sh w =
     (let outcome = generateStoryboardFrame E (length (calls w)) img sh
      in w\<lparr>shots := settle sh outcome (shots w), calls := calls w @ [(sh, outcome)]\<rparr>)"

fun process_loop :: "env \<Rightarrow> string \<Rightarrow> js_object list \<Rightarrow> world \<Rightarrow> world" where
  "process_loop E img [] w = w"
| "process_loop E img (sh # rest) w = process_loop E img rest (process_shot E img sh w)"

text \<open>Lines 89 to 97: the records are created and stored before the loop starts.\<close>

definition start_run :: "env \<Rightarrow> json list \<Rightarrow> world \<Rightarrow> js_object list \<times> world" where
  "start_run E shotConfigs w =
     (let initialShots = initial_shots E (randoms w) shotConfigs
      in (initialShots,
          w\<lparr>isGenerating := True, shots := initialShots,
            randoms := randoms w + length shotConfigs\<rparr>))"

text \<open>Lines 89 to 124, for a reference image and a validated list.\<close>

definition run :: "env \<Rightarrow> string \<Rightarrow> json list \<Rightarrow> world \<Rightarrow> world" where
  "run E img shotConfigs w =
     (case start_run E shotConfigs w of
        (initialShots, w1) \<Rightarrow> (process_loop E img initialShots w1)\<lparr>isGenerating := False\<rparr>)"

definition no_reference_alert :: string where
  "no_reference_alert = ''Please upload a Character Reference Image first.''"

definition api_key_missing_message :: string where
  "api_key_missing_message = ''API Key missing in environment (process.env.API_KEY).''"

definition handleGenerate :: "env \<Rightarrow> world \<Rightarrow> world" where
  "handleGenerate E w =
     (case refImage w of
        None \<Rightarrow> w\<lparr>alerts := alerts w @ [no_reference_alert]\<rparr>
      | Some img \<Rightarrow>
          if img = [] then w\<lparr>alerts := alerts w @ [no_reference_alert]\<rparr>
          else
            (case validateAndParseJson E w of
               (None, w1) \<Rightarrow> w1
             | (Some shotConfigs, w1) \<Rightarrow>
                 if \<not> isApiKeyAvailable E
                 then w1\<lparr>validationError := Some api_key_missing_message\<rparr>
                 else run E img shotConfigs w1))"

definition handleClear :: "world \<Rightarrow> world" where
  "handleClear w = w\<lparr>shots := [], isGenerating := False\<rparr>"

subsection \<open>Vocabulary of the properties\<close>

text \<open>A record whose request has resolved: its status is \<open>SUCCESS\<close> or \<open>ERROR\<close>.\<close>

definition is_resolved :: "js_object \<Rightarrow> bool" where
  "is_resolved s =
     (get_prop s ''status'' = Some (status_value SUCCESS)
      \<or> get_prop s ''status'' = Some (status_value ERROR))"

text \<open>A part that carries non-empty inline data, and a response with such a part in any
  of its candidates.\<close>

definition part_has_image :: "part \<Rightarrow> bool" where
  "part_has_image p =
     (case inlineData p of
        None \<Rightarrow> False
      | Some b \<Rightarrow> (case data b of None \<Rightarrow> False | Some d \<Rightarrow> d \<noteq> []))"

definition candidate_parts :: "candidate \<Rightarrow> part list" where
  "candidate_parts c =
     (case content c of
        None \<Rightarrow> []
      | Some ct \<Rightarrow> (case parts ct of None \<Rightarrow> [] | Some ps \<Rightarrow> ps))"

definition has_inline_image :: "response \<Rightarrow> bool" where
  "has_inline_image r =
     (case candidates r of
        None \<Rightarrow> False
      | Some cs \<Rightarrow> list_ex (\<lambda>c. list_ex part_has_image (candidate_parts c)) cs)"

text \<open>A response whose first candidate, when there is one, has its \<open>content\<close> and
  \<open>parts\<close>.\<close>

definition first_candidate_complete :: "response \<Rightarrow> bool" where
  "first_candidate_complete r =
     (case candidates r of
        None \<Rightarrow> True
      | Some [] \<Rightarrow> True
      | Some (c # cs) \<Rightarrow>
          (case content c of None \<Rightarrow> False | Some ct \<Rightarrow> parts ct \<noteq> None))"

text \<open>
  The outcome of \<open>JSON.parse\<close> on a shot list that is not parseable, is not an array, or
  contains an object without a \<open>shot_type\<close> or without a \<open>prompt\<close> property.
\<close>

definition lacks_field :: "json \<Rightarrow> bool" where
  "lacks_field item =
     (case item of
        JObject kvs \<Rightarrow> get_prop kvs ''shot_type'' = None \<or> get_prop kvs ''prompt'' = None
      | _ \<Rightarrow> False)"

definition invalid_shot_list :: "json option \<Rightarrow> bool" where
  "invalid_shot_list parsed =
     (case parsed of
        None \<Rightarrow> True
      | Some (JArray items) \<Rightarrow> list_ex lacks_field items
      | Some _ \<Rightarrow> True)"

subsection \<open>Example inputs\<close>

definition example_json :: string where
  "example_json =
     ''[{\"shot_type\":\"Wide Shot\",\"prompt\":\"A\"},{\"shot_type\":\"Close Up\",\"aspect_ratio\":\"16:9\",\"prompt\":\"B\"}]''"

definition example_configs :: "json list" where
  "example_configs =
     [JObject [(''shot_type'', JString ''Wide Shot''), (''prompt'', JString ''A'')],
      JObject [(''shot_type'', JString ''Close Up''), (''aspect_ratio'', JString ''16:9''),
               (''prompt'', JString ''B'')]]"

definition image_response :: response where
  "image_response =
     \<lparr>candidates = Some [\<lparr>content = Some \<lparr>parts = Some
        [\<lparr>part_text = Some ''Here is the frame.'', inlineData = None\<rparr>,
         \<lparr>part_text = None,
          inlineData = Some \<lparr>mimeType = Some ''image/png'', data = Some ''iVBORw0KGgo=''\<rparr>\<rparr>]\<rparr>\<rparr>]\<rparr>"

definition text_only_response :: response where
  "text_only_response =
     \<lparr>candidates = Some [\<lparr>content = Some \<lparr>parts = Some
        [\<lparr>part_text = Some ''I cannot draw this.'', inlineData = None\<rparr>]\<rparr>\<rparr>]\<rparr>"

text \<open>
  An environment: a 2000 by 1500 reference image, a 640 by 480 one, a canvas that works,
  a parser that knows four texts, and a remote model that returns an image on the first
  call, fails on the second and returns text only from then on.
\<close>

definition example_env :: env where
  "example_env =
     \<lparr>image_load = (\<lambda>s. if s = ''data:image/png;base64,LARGE'' then Some (2000, 1500)
                        else if s = ''data:image/png;base64,SMALL'' then Some (640, 480)
                        else None),
      getContext_2d = (\<lambda>w h. True),
      toDataURL = (\<lambda>src w h t q. ''data:'' @ t @ '';base64,''
                        @ (if (w, h) = (1024, 768) then ''U0NBTEVE'' else ''U0FNRQ=='')),
      JSON_parse = (\<lambda>s. if s = example_json then Some (JArray example_configs)
                        else if s = ''{}'' then Some (JObject [])
                        else if s = ''[{\"prompt\":\"A\"}]''
                          then Some (JArray [JObject [(''prompt'', JString ''A'')]])
                        else if s = ''[]'' then Some (JArray [])
                        else None),
      API_KEY = Some ''key'',
      Math_random_base36 = (\<lambda>n. if n = 0 then ''0.4fzyo82mvyr'' else ''0.c7x1hq0k3td''),
      generateContent = (\<lambda>n req. if n = 0 then Inr image_response
                                 else if n = 1 then Inl ''Rpc failed due to xhr error''
                                 else Inr text_only_response),
      engine_message = (\<lambda>e. ''TypeError'')\<rparr>"

text \<open>The same with no drawing context.\<close>

definition no_canvas_env :: env where
  "no_canvas_env = example_env\<lparr>getContext_2d := (\<lambda>w h. False)\<rparr>"

text \<open>The same with \<open>Math.random()\<close> returning 0.5 and then 0.25, which \<open>toString(36)\<close>
  prints as \<open>0.i\<close> and \<open>0.9\<close>.\<close>

definition colliding_env :: env where
  "colliding_env = example_env\<lparr>Math_random_base36 := (\<lambda>n. if n = 0 then ''0.i'' else ''0.9'')\<rparr>"

text \<open>The same with a remote model that rejects every call with an empty message.\<close>

definition silent_failure_env :: env where
  "silent_failure_env = example_env\<lparr>generateContent := (\<lambda>n req. Inl [])\<rparr>"

text \<open>The same with a remote model that fails on the first call and returns an image
  afterwards.\<close>

definition failing_first_env :: env where
  "failing_first_env =
     example_env\<lparr>generateContent :=
       (\<lambda>n req. if n = 0 then Inl ''Rpc failed due to xhr error'' else Inr image_response)\<rparr>"

definition example_world :: world where
  "example_world =
     \<lparr>refImage = Some ''data:image/png;base64,LARGE'', jsonInput = example_json, shots = [],
      isGenerating = False, validationError = None, alerts = [], calls = [], randoms = 0\<rparr>"

section \<open>Properties\<close>

subsection \<open>Rounding\<close>

lemma Math_round_div:
  fixes a b :: nat
  assumes "0 < b"
  shows "Math_round (of_nat a / of_nat b) = int ((2 * a + b) div (2 * b))"
proof -
  have "(of_nat a / of_nat b + 1 / 2 :: rat) = of_nat (2 * a + b) / of_nat (2 * b)"
    using assms by (simp add: field_simps)
  then show ?thesis
    unfolding Math_round_def by (simp only: floor_divide_of_nat_eq)
qed

lemma resize_dims_nat:
  "resize_dims w h mw mh =
     (if w > h then (if w > mw then (mw, (2 * (h * mw) + w) div (2 * w)) else (w, h))
      else (if h > mh then ((2 * (w * mh) + h) div (2 * h), mh) else (w, h)))"
  unfolding resize_dims_def by (simp add: Math_round_div del: of_nat_mult)

lemma round_bounds:
  fixes a b :: nat
  assumes "0 < b"
  shows "\<bar>2 * (int ((2 * a + b) div (2 * b)) * int b - int a)\<bar> \<le> int b"
proof -
  define q where "q = (2 * a + b) div (2 * b)"
  define r where "r = (2 * a + b) mod (2 * b)"
  have e: "2 * a + b = q * (2 * b) + r"
    using div_mult_mod_eq[of "2 * a + b" "2 * b"] unfolding q_def r_def by linarith
  have r: "r < 2 * b" unfolding r_def using assms by simp
  have "int (2 * a + b) = int (q * (2 * b) + r)"
    using e by simp
  then have "2 * int a + int b = int q * (2 * int b) + int r" by simp
  then have "2 * (int q * int b - int a) = int b - int r" by (simp add: algebra_simps)
  then show ?thesis unfolding q_def[symmetric] using r by linarith
qed

lemma round_le:
  fixes a b m :: nat
  assumes "0 < b" "a \<le> b * m"
  shows "(2 * a + b) div (2 * b) \<le> m"
proof -
  have "2 * a + b < (2 * b) * Suc m" using assms by (simp add: algebra_simps)
  then have "(2 * a + b) div (2 * b) < Suc m"
    using assms(1) by (simp add: div_less_iff_less_mult mult.commute)
  then show ?thesis by simp
qed

subsection \<open>Facts about the records\<close>

lemma get_prop_update:
  "get_prop (AList.update k v obj) k' = (if k' = k then Some v else get_prop obj k')"
  by (simp add: get_prop_def update_conv')

lemma strict_equals_eq: "strict_equals a b \<Longrightarrow> a = b"
  by (induction a b rule: strict_equals.induct) simp_all

lemma strict_equals_string [simp]:
  "strict_equals (Some (JString a)) b = (b = Some (JString a))"
  by auto

lemma new_shot_id: "get_prop (new_shot E n c) ''id'' = Some (JString (generateId E n))"
  by (simp add: new_shot_def get_prop_update)

lemma new_shot_status: "get_prop (new_shot E n c) ''status'' = Some (status_value PENDING)"
  by (simp add: new_shot_def get_prop_update)

lemma new_shot_other:
  "k \<noteq> ''id'' \<Longrightarrow> k \<noteq> ''status'' \<Longrightarrow> get_prop (new_shot E n c) k = get_prop (spread c) k"
  by (simp add: new_shot_def get_prop_update)

lemma length_initial_shots: "length (initial_shots E n cs) = length cs"
  by (induction cs arbitrary: n) simp_all

lemma nth_initial_shots:
  "i < length cs \<Longrightarrow> initial_shots E n cs ! i = new_shot E (n + i) (cs ! i)"
proof (induction cs arbitrary: n i)
  case Nil
  then show ?case by simp
next
  case (Cons c cs)
  then show ?case by (cases i) simp_all
qed

lemma initial_shots_pending:
  "s \<in> set (initial_shots E n cs) \<Longrightarrow> get_prop s ''status'' = Some (status_value PENDING)"
  by (induction cs arbitrary: n) (auto simp: new_shot_status)

lemma initial_shots_id_string:
  "s \<in> set (initial_shots E n cs) \<Longrightarrow> \<exists>i. get_prop s ''id'' = Some (JString i)"
  by (induction cs arbitrary: n) (auto simp: new_shot_id)

subsection \<open>Facts about the status updates\<close>

lemma length_settle: "length (settle sh outcome prev) = length prev"
  by (simp add: settle_def mark_success_def mark_error_def split: sum.splits)

lemma settle_Nil: "settle sh outcome [] = []"
  by (simp add: settle_def mark_success_def mark_error_def split: sum.splits)

lemma nth_settle_other:
  assumes "i < length prev"
    and "\<not> strict_equals (get_prop (prev ! i) ''id'') (get_prop sh ''id'')"
  shows "settle sh outcome prev ! i = prev ! i"
  using assms by (simp add: settle_def mark_success_def mark_error_def split: sum.splits)

lemma nth_settle_frame:
  assumes "i < length prev" and "k \<noteq> ''status''" "k \<noteq> ''imageUrl''" "k \<noteq> ''error''"
  shows "get_prop (settle sh outcome prev ! i) k = get_prop (prev ! i) k"
  using assms
  by (simp add: settle_def mark_success_def mark_error_def get_prop_update split: sum.splits)

lemma nth_settle_resolved:
  assumes "i < length prev"
    and "is_resolved (prev ! i) \<or> strict_equals (get_prop (prev ! i) ''id'') (get_prop sh ''id'')"
  shows "is_resolved (settle sh outcome prev ! i)"
  using assms
  by (auto simp: settle_def mark_success_def mark_error_def get_prop_update is_resolved_def
           split: sum.splits)

lemma nth_settle_error:
  assumes "i < length prev"
    and "strict_equals (get_prop (prev ! i) ''id'') (get_prop sh ''id'')"
  shows "get_prop (settle sh (Inl m) prev ! i) ''status'' = Some (status_value ERROR)
       \<and> get_prop (settle sh (Inl m) prev ! i) ''error'' = Some (JString m)"
  using assms by (simp add: settle_def mark_error_def get_prop_update)

lemma nth_settle_success:
  assumes "i < length prev"
    and "strict_equals (get_prop (prev ! i) ''id'') (get_prop sh ''id'')"
  shows "get_prop (settle sh (Inr u) prev ! i) ''status'' = Some (status_value SUCCESS)
       \<and> get_prop (settle sh (Inr u) prev ! i) ''imageUrl'' = Some (JString u)"
  using assms by (simp add: settle_def mark_success_def get_prop_update)

lemma shots_process_shot:
  "shots (process_shot E img sh w) =
     settle sh (generateStoryboardFrame E (length (calls w)) img sh) (shots w)"
  by (simp add: process_shot_def Let_def)

lemma calls_process_shot:
  "calls (process_shot E img sh w) =
     calls w @ [(sh, generateStoryboardFrame E (length (calls w)) img sh)]"
  by (simp add: process_shot_def Let_def)

lemma process_shot_rest:
  "refImage (process_shot E img sh w) = refImage w"
  "jsonInput (process_shot E img sh w) = jsonInput w"
  "isGenerating (process_shot E img sh w) = isGenerating w"
  "validationError (process_shot E img sh w) = validationError w"
  "alerts (process_shot E img sh w) = alerts w"
  "randoms (process_shot E img sh w) = randoms w"
  by (simp_all add: process_shot_def Let_def)

subsection \<open>Facts about the loop\<close>

lemma process_loop_append:
  "process_loop E img (xs @ ys) w = process_loop E img ys (process_loop E img xs w)"
  by (induction xs arbitrary: w) simp_all

lemma process_loop_rest:
  "refImage (process_loop E img xs w) = refImage w"
  "jsonInput (process_loop E img xs w) = jsonInput w"
  "isGenerating (process_loop E img xs w) = isGenerating w"
  "validationError (process_loop E img xs w) = validationError w"
  "alerts (process_loop E img xs w) = alerts w"
  "randoms (process_loop E img xs w) = randoms w"
  by (induction xs arbitrary: w) (simp_all add: process_shot_rest)

lemma length_shots_process_loop:
  "length (shots (process_loop E img xs w)) = length (shots w)"
  by (induction xs arbitrary: w) (simp_all add: shots_process_shot length_settle)

lemma calls_process_loop:
  "map fst (calls (process_loop E img xs w)) = map fst (calls w) @ xs"
  by (induction xs arbitrary: w) (simp_all add: calls_process_shot)

lemma length_calls_process_loop:
  "length (calls (process_loop E img xs w)) = length (calls w) + length xs"
  by (induction xs arbitrary: w) (simp_all add: calls_process_shot)

lemma shots_process_loop_Nil:
  "shots w = [] \<Longrightarrow> shots (process_loop E img xs w) = []"
  by (induction xs arbitrary: w) (simp_all add: shots_process_shot settle_Nil)

lemma process_loop_frame:
  assumes "i < length (shots w)" and "k \<noteq> ''status''" "k \<noteq> ''imageUrl''" "k \<noteq> ''error''"
  shows "get_prop (shots (process_loop E img xs w) ! i) k = get_prop (shots w ! i) k"
  using assms
proof (induction xs arbitrary: w)
  case Nil
  then show ?case by simp
next
  case (Cons x xs)
  have "i < length (shots (process_shot E img x w))"
    using Cons.prems(1) by (simp add: shots_process_shot length_settle)
  then have "get_prop (shots (process_loop E img xs (process_shot E img x w)) ! i) k =
             get_prop (shots (process_shot E img x w) ! i) k"
    using Cons.IH Cons.prems by blast
  then show ?case
    using Cons.prems by (simp add: shots_process_shot nth_settle_frame)
qed

lemma process_loop_untouched:
  assumes "i < length (shots w)"
    and "\<forall>x \<in> set xs. \<not> strict_equals (get_prop (shots w ! i) ''id'') (get_prop x ''id'')"
  shows "shots (process_loop E img xs w) ! i = shots w ! i"
  using assms
proof (induction xs arbitrary: w)
  case Nil
  then show ?case by simp
next
  case (Cons x xs)
  let ?w = "process_shot E img x w"
  have len: "i < length (shots ?w)"
    using Cons.prems(1) by (simp add: shots_process_shot length_settle)
  have same: "shots ?w ! i = shots w ! i"
    using Cons.prems by (simp add: shots_process_shot nth_settle_other)
  have "shots (process_loop E img xs ?w) ! i = shots ?w ! i"
    using Cons.IH[OF len] same Cons.prems(2) by simp
  then show ?case using same by simp
qed

lemma process_loop_resolved:
  assumes "i < length (shots w)"
    and "is_resolved (shots w ! i)
         \<or> (\<exists>x \<in> set xs. strict_equals (get_prop (shots w ! i) ''id'') (get_prop x ''id''))"
  shows "is_resolved (shots (process_loop E img xs w) ! i)"
  using assms
proof (induction xs arbitrary: w)
  case Nil
  then show ?case by simp
next
  case (Cons x xs)
  let ?w = "process_shot E img x w"
  have len: "i < length (shots ?w)"
    using Cons.prems(1) by (simp add: shots_process_shot length_settle)
  have id: "get_prop (shots ?w ! i) ''id'' = get_prop (shots w ! i) ''id''"
    using Cons.prems(1) by (simp add: shots_process_shot nth_settle_frame)
  have "is_resolved (shots ?w ! i)
        \<or> (\<exists>y \<in> set xs. strict_equals (get_prop (shots ?w ! i) ''id'') (get_prop y ''id''))"
  proof (cases "is_resolved (shots w ! i)
                \<or> strict_equals (get_prop (shots w ! i) ''id'') (get_prop x ''id'')")
    case True
    then show ?thesis
      using Cons.prems(1) by (simp add: shots_process_shot nth_settle_resolved)
  next
    case False
    then show ?thesis using Cons.prems(2) id by auto
  qed
  then show ?case using Cons.IH[OF len] by simp
qed

subsection \<open>Facts about validation and the run\<close>

lemma item_ok_True:
  "item_ok x = Some True \<longleftrightarrow>
     (\<exists>kvs. x = JObject kvs \<and> truthy (get_prop kvs ''shot_type'') \<and> truthy (get_prop kvs ''prompt''))"
  by (cases x) (auto simp: item_ok_def)

lemma item_ok_None: "item_ok x = None \<longleftrightarrow> x = JNull"
  by (cases x) (auto simp: item_ok_def)

lemma every_item_ok_True:
  "every_item_ok xs = Some True \<longleftrightarrow> (\<forall>x \<in> set xs. item_ok x = Some True)"
  by (induction xs) (auto split: option.splits bool.splits)

lemma every_item_ok_None: "every_item_ok xs = None \<Longrightarrow> JNull \<in> set xs"
  by (induction xs) (auto simp: item_ok_None split: option.splits bool.splits)

lemma every_item_ok_objects:
  "every_item_ok xs = Some True \<Longrightarrow> x \<in> set xs \<Longrightarrow> \<exists>kvs. x = JObject kvs"
  by (auto simp: every_item_ok_True item_ok_True)

lemma truthy_present: "truthy v \<Longrightarrow> v \<noteq> None"
  by (cases v) simp_all

lemma missing_field_rejected:
  assumes "JObject kvs \<in> set items"
    and "get_prop kvs ''shot_type'' = None \<or> get_prop kvs ''prompt'' = None"
  shows "every_item_ok items \<noteq> Some True"
proof
  assume "every_item_ok items = Some True"
  then have "item_ok (JObject kvs) = Some True"
    using assms(1) by (simp add: every_item_ok_True)
  then have "truthy (get_prop kvs ''shot_type'') \<and> truthy (get_prop kvs ''prompt'')"
    by (simp add: item_ok_True)
  then show False using assms(2) by auto
qed

lemma validate_keeps:
  "calls (snd (validateAndParseJson E w)) = calls w"
  "shots (snd (validateAndParseJson E w)) = shots w"
  by (simp_all add: validateAndParseJson_def split: option.splits json.splits bool.splits)

lemma validate_accepts:
  assumes "JSON_parse E (jsonInput w) = Some (JArray items)"
    and "every_item_ok items = Some True"
  shows "validateAndParseJson E w = (Some items, w\<lparr>validationError := None\<rparr>)"
  using assms by (simp add: validateAndParseJson_def)

lemma handleGenerate_accepts:
  assumes "refImage w = Some img" "img \<noteq> []" "isApiKeyAvailable E"
    and "JSON_parse E (jsonInput w) = Some (JArray items)"
    and "every_item_ok items = Some True"
  shows "handleGenerate E w = run E img items (w\<lparr>validationError := None\<rparr>)"
  using assms by (simp add: handleGenerate_def validate_accepts)

lemma handleGenerate_blocked:
  assumes "fst (validateAndParseJson E w) = None"
  shows "calls (handleGenerate E w) = calls w \<and> shots (handleGenerate E w) = shots w
       \<and> (refImage w = None \<or> refImage w = Some [] \<longrightarrow>
            handleGenerate E w = w\<lparr>alerts := alerts w @ [no_reference_alert]\<rparr>)
       \<and> (refImage w \<noteq> None \<and> refImage w \<noteq> Some [] \<longrightarrow>
            handleGenerate E w = snd (validateAndParseJson E w))"
proof (cases "validateAndParseJson E w")
  case (Pair r w1)
  then have r: "r = None" using assms by simp
  have "calls w1 = calls w" "shots w1 = shots w"
    using validate_keeps[of E w] Pair by simp_all
  then show ?thesis
    using Pair r by (auto simp: handleGenerate_def split: option.splits)
qed

lemma run_eq:
  "run E img cs w =
     (process_loop E img (initial_shots E (randoms w) cs)
        (w\<lparr>isGenerating := True, shots := initial_shots E (randoms w) cs,
           randoms := randoms w + length cs\<rparr>))\<lparr>isGenerating := False\<rparr>"
  by (simp add: run_def start_run_def Let_def)

lemma process_loop_eq:
  "process_loop E img xs w =
     w\<lparr>shots := shots (process_loop E img xs w), calls := calls (process_loop E img xs w)\<rparr>"
  by (rule world.equality) (simp_all add: process_loop_rest)

subsection \<open>Facts about the generation client\<close>

lemma first_image_Some:
  "first_image ps = Some d \<Longrightarrow> d \<noteq> [] \<and> list_ex part_has_image ps"
  by (induction ps) (auto simp: part_has_image_def split: option.splits if_splits)

lemma first_image_None:
  "first_image ps = None \<Longrightarrow> \<not> list_ex part_has_image ps"
  by (induction ps) (auto simp: part_has_image_def split: option.splits if_splits)

lemma extract_image_Inr:
  assumes "extract_image E r = Inr url"
  shows "\<exists>d. d \<noteq> [] \<and> url = ''data:image/png;base64,'' @ d"
  using assms first_image_Some
  by (fastforce simp: extract_image_def split: option.splits list.splits)

lemma extract_image_has_image:
  assumes "extract_image E r = Inr url"
  shows "has_inline_image r"
  using assms first_image_Some
  by (fastforce simp: extract_image_def has_inline_image_def candidate_parts_def
      split: option.splits list.splits)

lemma extract_image_complete:
  assumes "\<not> has_inline_image r" and "first_candidate_complete r"
  shows "extract_image E r = Inl no_image_message"
proof (cases "extract_image E r")
  case (Inl m)
  then show ?thesis
    using assms(2)
    by (auto simp: extract_image_def first_candidate_complete_def
        split: option.splits list.splits)
next
  case (Inr url)
  then show ?thesis using assms(1) extract_image_has_image by blast
qed

lemma generateStoryboardFrame_rejected:
  assumes "generateContent E n (build_request E img sh) = Inl m"
  shows "generateStoryboardFrame E n img sh =
           Inl (if m \<noteq> [] then m else ''Failed to generate image'')"
  using assms by (simp add: generateStoryboardFrame_def try_block_def)

lemma generateStoryboardFrame_response:
  assumes "generateContent E n (build_request E img sh) = Inr r"
  shows "generateStoryboardFrame E n img sh =
           (case extract_image E r of
              Inl m \<Rightarrow> Inl (if m \<noteq> [] then m else ''Failed to generate image'')
            | Inr url \<Rightarrow> Inr url)"
  using assms by (simp add: generateStoryboardFrame_def try_block_def)

lemma no_image_message_nonempty: "no_image_message \<noteq> []"
  by (simp add: no_image_message_def)

subsection \<open>Facts about rejected shot lists\<close>

lemma list_ex_lacks_field:
  "list_ex lacks_field items \<Longrightarrow> every_item_ok items \<noteq> Some True"
proof -
  assume "list_ex lacks_field items"
  then obtain x where x: "x \<in> set items" "lacks_field x"
    by (auto simp: list_ex_iff)
  from x(2) obtain kvs where "x = JObject kvs"
    "get_prop kvs ''shot_type'' = None \<or> get_prop kvs ''prompt'' = None"
    unfolding lacks_field_def by (cases x) simp_all
  then show ?thesis using x(1) missing_field_rejected by blast
qed

lemma invalid_shot_list_rejected:
  assumes "invalid_shot_list (JSON_parse E (jsonInput w))"
  shows "fst (validateAndParseJson E w) = None
       \<and> validationError (snd (validateAndParseJson E w)) \<in>
           {Some invalid_json_message, Some must_be_array_message, Some missing_fields_message}"
proof (cases "JSON_parse E (jsonInput w)")
  case None
  then show ?thesis by (simp add: validateAndParseJson_def)
next
  case (Some v)
  show ?thesis
  proof (cases v)
    case (JArray items)
    then have "every_item_ok items \<noteq> Some True"
      using assms Some list_ex_lacks_field by (simp add: invalid_shot_list_def)
    then show ?thesis
      using Some JArray
      by (cases "every_item_ok items") (auto simp: validateAndParseJson_def)
  qed (simp_all add: validateAndParseJson_def Some)
qed

lemma validate_messages:
  "(JSON_parse E (jsonInput w) = None \<longrightarrow>
      validationError (snd (validateAndParseJson E w)) = Some invalid_json_message)
   \<and> (\<forall>v. JSON_parse E (jsonInput w) = Some v \<and> (\<forall>items. v \<noteq> JArray items) \<longrightarrow>
         validationError (snd (validateAndParseJson E w)) = Some must_be_array_message)
   \<and> (\<forall>items. JSON_parse E (jsonInput w) = Some (JArray items) \<and> list_ex lacks_field items
           \<and> JNull \<notin> set items \<longrightarrow>
         validationError (snd (validateAndParseJson E w)) = Some missing_fields_message)"
proof (intro conjI allI impI)
  assume "JSON_parse E (jsonInput w) = None"
  then show "validationError (snd (validateAndParseJson E w)) = Some invalid_json_message"
    by (simp add: validateAndParseJson_def)
next
  fix v assume "JSON_parse E (jsonInput w) = Some v \<and> (\<forall>items. v \<noteq> JArray items)"
  then show "validationError (snd (validateAndParseJson E w)) = Some must_be_array_message"
    by (cases v) (simp_all add: validateAndParseJson_def)
next
  fix items
  assume a: "JSON_parse E (jsonInput w) = Some (JArray items) \<and> list_ex lacks_field items
      \<and> JNull \<notin> set items"
  then have "every_item_ok items \<noteq> Some True" "every_item_ok items \<noteq> None"
    using list_ex_lacks_field every_item_ok_None by blast+
  then have "every_item_ok items = Some False"
    by (cases "every_item_ok items") auto
  then show "validationError (snd (validateAndParseJson E w)) = Some missing_fields_message"
    using a by (simp add: validateAndParseJson_def)
qed

subsection \<open>Runs of the examples\<close>

lemma colliding_ids:
  "generateId colliding_env 0 = [] \<and> generateId colliding_env 1 = []"
  by (simp add: generateId_def colliding_env_def)

lemma colliding_run:
  "get_prop (shots (handleGenerate colliding_env example_world) ! 0) ''status'' =
     Some (status_value ERROR)
   \<and> snd (calls (handleGenerate colliding_env example_world) ! 0) =
       Inr ''data:image/png;base64,iVBORw0KGgo=''"
  by (simp add: handleGenerate_def validateAndParseJson_def run_def start_run_def Let_def
      colliding_env_def example_env_def example_world_def example_configs_def
      isApiKeyAvailable_def item_ok_def get_prop_def new_shot_def generateId_def
      process_shot_def settle_def mark_success_def mark_error_def
      generateStoryboardFrame_def try_block_def extract_image_def image_response_def)

lemma settle_targets_one_record:
  assumes "j < length prev"
    and "get_prop sh ''id'' = Some (JString a)"
    and "get_prop (prev ! j) ''id'' \<noteq> Some (JString a)"
  shows "settle sh outcome prev ! j = prev ! j"
proof -
  have "\<not> strict_equals (get_prop (prev ! j) ''id'') (get_prop sh ''id'')"
    using assms(2,3) strict_equals_eq by force
  then show ?thesis using assms(1) by (simp add: nth_settle_other)
qed

section \<open>The claims\<close>

subsection \<open>Image normalizer\<close>

text \<open>
  Claim C4, as amended. When a decoded image has a dimension above the maximum \<open>m\<close> (the
  default is 1024 for both bounds), the canvas the normalizer creates has \<open>m\<close> as its
  larger dimension. Its smaller dimension is the input's smaller dimension scaled by \<open>m\<close>
  over the larger one and rounded to the nearest integer, so the two ratios agree up to
  that rounding: the cross products differ by at most half the input's larger dimension.
  The result is the JPEG encoding of that canvas when it yields a drawing context, and the
  input itself when it does not.
\<close>

theorem resizeImage_clamps_larger_dimension:
  assumes load: "image_load E src = Some (w, h)"
    and big: "m < w \<or> m < h"
    and dims: "resize_dims w h m m = (w', h')"
  shows "max w' h' = m
       \<and> min w' h' = nat (Math_round (of_nat (min w h * m) / of_nat (max w h)))
       \<and> \<bar>2 * (int w' * int h - int h' * int w)\<bar> \<le> int (max w h)
       \<and> resizeImage E src m m =
           (if getContext_2d E w' h' then toDataURL E src w' h' ''image/jpeg'' (8 / 10)
            else src)"
proof (cases "h < w")
  case True
  then have w: "m < w" using big by linarith
  have d: "w' = m" "h' = (2 * (h * m) + w) div (2 * w)"
    using dims True w by (auto simp: resize_dims_nat)
  have le: "h' \<le> m" unfolding d using True by (intro round_le) (simp_all add: mult.commute)
  have b: "\<bar>2 * (int h' * int w - int (h * m))\<bar> \<le> int w"
    unfolding d using round_bounds[of w "h * m"] True by simp
  have r: "int h' = Math_round (of_nat (h * m) / of_nat w)"
    unfolding d using True by (subst Math_round_div) simp_all
  have 1: "resizeImage E src m m =
      (if getContext_2d E w' h' then toDataURL E src w' h' ''image/jpeg'' (8 / 10) else src)"
    unfolding resizeImage_def using load dims by simp
  have 2: "max w' h' = m" using le d by simp
  have 3: "min w' h' = nat (Math_round (of_nat (min w h * m) / of_nat (max w h)))"
  proof -
    have "min w' h' = h'" "min w h = h" "max w h = w" using le d(1) True by simp_all
    then show ?thesis using r by (simp only: nat_int)
  qed
  have 4: "\<bar>2 * (int w' * int h - int h' * int w)\<bar> \<le> int (max w h)"
    using b True d(1) by (simp add: max_def algebra_simps abs_minus_commute)
  show ?thesis using 1 2 3 4 by blast
next
  case False
  then have hh: "m < h" using big by linarith
  have d: "h' = m" "w' = (2 * (w * m) + h) div (2 * h)"
    using dims False hh by (auto simp: resize_dims_nat)
  have le: "w' \<le> m" unfolding d using False hh by (intro round_le) (simp_all add: mult.commute)
  have b: "\<bar>2 * (int w' * int h - int (w * m))\<bar> \<le> int h"
    unfolding d using round_bounds[of h "w * m"] hh by simp
  have r: "int w' = Math_round (of_nat (w * m) / of_nat h)"
    unfolding d using hh by (subst Math_round_div) simp_all
  have 1: "resizeImage E src m m =
      (if getContext_2d E w' h' then toDataURL E src w' h' ''image/jpeg'' (8 / 10) else src)"
    unfolding resizeImage_def using load dims by simp
  have 2: "max w' h' = m" using le d by simp
  have 3: "min w' h' = nat (Math_round (of_nat (min w h * m) / of_nat (max w h)))"
  proof -
    have "min w' h' = w'" "min w h = w" "max w h = h" using le d(1) False by simp_all
    then show ?thesis using r by (simp only: nat_int)
  qed
  have 4: "\<bar>2 * (int w' * int h - int h' * int w)\<bar> \<le> int (max w h)"
    using b False d(1) by (simp add: max_def algebra_simps abs_minus_commute)
  show ?thesis using 1 2 3 4 by blast
qed

theorem resizeImage_clamps_larger_dimension_witness:
  "resizeImage_default example_env ''data:image/png;base64,LARGE'' =
     ''data:image/jpeg;base64,U0NBTEVE''
   \<and> resize_dims 2000 1500 1024 1024 = (1024, 768)
   \<and> max (1024::nat) 768 = 1024
   \<and> \<bar>2 * (int 1024 * int 1500 - int 768 * int 2000)\<bar> \<le> int (max 2000 1500)"
proof -
  have load: "image_load example_env ''data:image/png;base64,LARGE'' = Some (2000, 1500)"
    by (simp add: example_env_def)
  have big: "(1024::nat) < 2000 \<or> (1024::nat) < 1500" by simp
  have dims: "resize_dims 2000 1500 1024 1024 = (1024, 768)"
    by (simp add: resize_dims_nat)
  have ctx: "getContext_2d example_env 1024 768"
    by (simp add: example_env_def)
  have enc: "toDataURL example_env ''data:image/png;base64,LARGE'' 1024 768 ''image/jpeg'' (8 / 10) =
      ''data:image/jpeg;base64,U0NBTEVE''"
    by (simp add: example_env_def)
  show ?thesis
    using resizeImage_clamps_larger_dimension[OF load big dims] dims enc ctx
    by (simp add: resizeImage_default_def)
qed

text \<open>
  The claim C4 as stated fails where no drawing context is obtained: the 2000 by 1500
  image comes back as it went in.
\<close>

theorem oversized_image_without_context_is_returned:
  "image_load no_canvas_env ''data:image/png;base64,LARGE'' = Some (2000, 1500)
   \<and> resizeImage_default no_canvas_env ''data:image/png;base64,LARGE'' =
       ''data:image/png;base64,LARGE''
   \<and> image_load no_canvas_env
        (resizeImage_default no_canvas_env ''data:image/png;base64,LARGE'') = Some (2000, 1500)"
  by (simp add: resizeImage_default_def resizeImage_def resize_dims_nat no_canvas_env_def
      example_env_def)

text \<open>
  Claim C5. When both dimensions of a decoded image are below the maxima, the computed
  dimensions are the input's, and the result is the JPEG encoding (quality 0.8) of the
  image drawn at its own size (or the input itself when the canvas yields no context).
\<close>

theorem resizeImage_keeps_small_dimensions:
  assumes load: "image_load E src = Some (w, h)"
    and small: "w < maxWidth" "h < maxHeight"
  shows "resize_dims w h maxWidth maxHeight = (w, h)
       \<and> resizeImage E src maxWidth maxHeight =
           (if getContext_2d E w h then toDataURL E src w h ''image/jpeg'' (8 / 10) else src)"
  using assms by (simp add: resize_dims_def resizeImage_def)

theorem resizeImage_keeps_small_dimensions_witness:
  "resize_dims 640 480 1024 1024 = (640, 480)
   \<and> resizeImage_default example_env ''data:image/png;base64,SMALL'' =
       ''data:image/jpeg;base64,U0FNRQ==''"
proof -
  have load: "image_load example_env ''data:image/png;base64,SMALL'' = Some (640, 480)"
    by (simp add: example_env_def)
  have enc: "getContext_2d example_env 640 480"
    "toDataURL example_env ''data:image/png;base64,SMALL'' 640 480 ''image/jpeg'' (8 / 10) =
      ''data:image/jpeg;base64,U0FNRQ==''"
    by (simp_all add: example_env_def)
  show ?thesis
    using resizeImage_keeps_small_dimensions[OF load, of 1024 1024] enc
    by (simp add: resizeImage_default_def)
qed

text \<open>
  Claim C6. When the image fails to decode, or the canvas created for it yields no drawing
  context, the normalizer resolves with the input string itself. The function is total
  and its result is the resolved value: there is no rejection.
\<close>

theorem resizeImage_fails_open:
  assumes "image_load E src = None
         \<or> (\<exists>w h. image_load E src = Some (w, h)
              \<and> \<not> getContext_2d E (fst (resize_dims w h maxWidth maxHeight))
                                    (snd (resize_dims w h maxWidth maxHeight)))"
  shows "resizeImage E src maxWidth maxHeight = src"
  using assms by (auto simp: resizeImage_def split: prod.splits)

theorem resizeImage_fails_open_witness:
  "resizeImage example_env ''not an image'' 1024 1024 = ''not an image''
   \<and> resizeImage no_canvas_env ''data:image/png;base64,LARGE'' 1024 1024 =
       ''data:image/png;base64,LARGE''"
proof -
  have undecoded: "image_load example_env ''not an image'' = None"
    by (simp add: example_env_def)
  have no_context: "\<exists>w h. image_load no_canvas_env ''data:image/png;base64,LARGE'' = Some (w, h)
      \<and> \<not> getContext_2d no_canvas_env (fst (resize_dims w h 1024 1024))
                                        (snd (resize_dims w h 1024 1024))"
    by (simp add: no_canvas_env_def example_env_def)
  show ?thesis
    using resizeImage_fails_open[of example_env "''not an image''" 1024 1024]
      resizeImage_fails_open[of no_canvas_env "''data:image/png;base64,LARGE''" 1024 1024]
      undecoded no_context
    by blast
qed

subsection \<open>Sequential orchestrator\<close>

text \<open>
  Claim C1. When the reference image and the API key are present and the shot list passes
  validation, \<open>handleGenerate\<close> creates one record per input shot, each pending and stored
  before any call is made (the state \<open>w1\<close> has the call log of \<open>w\<close>); it then calls the
  generation client once per record in input order (after \<open>n\<close> iterations the log holds the
  first \<open>n\<close> records), and in the final state the list has the length of the input, every
  record is resolved (success or error) and carries the properties of its input shot.
\<close>

theorem handleGenerate_resolves_every_shot:
  assumes ref: "refImage w = Some img" "img \<noteq> []"
    and key: "isApiKeyAvailable E"
    and parsed: "JSON_parse E (jsonInput w) = Some (JArray shotConfigs)"
    and valid: "every_item_ok shotConfigs = Some True"
    and start: "start_run E shotConfigs (w\<lparr>validationError := None\<rparr>) = (initialShots, w1)"
  shows "length initialShots = length shotConfigs
       \<and> shots w1 = initialShots \<and> calls w1 = calls w
       \<and> (\<forall>s \<in> set initialShots. get_prop s ''status'' = Some (status_value PENDING))
       \<and> handleGenerate E w = (process_loop E img initialShots w1)\<lparr>isGenerating := False\<rparr>
       \<and> (\<forall>n \<le> length initialShots.
             map fst (calls (process_loop E img (take n initialShots) w1)) =
               map fst (calls w) @ take n initialShots)
       \<and> map fst (calls (handleGenerate E w)) = map fst (calls w) @ initialShots
       \<and> length (shots (handleGenerate E w)) = length shotConfigs
       \<and> (\<forall>i < length shotConfigs.
             is_resolved (shots (handleGenerate E w) ! i)
             \<and> (\<forall>k. k \<notin> {''id'', ''status'', ''imageUrl'', ''error''} \<longrightarrow>
                   get_prop (shots (handleGenerate E w) ! i) k = get_prop (spread (shotConfigs ! i)) k))"
proof -
  have init: "initialShots = initial_shots E (randoms w) shotConfigs"
    using start by (auto simp: start_run_def Let_def)
  have w1: "shots w1 = initialShots" "calls w1 = calls w"
    using start by (auto simp: start_run_def Let_def)
  have len: "length initialShots = length shotConfigs"
    by (simp add: init length_initial_shots)
  have pending: "\<forall>s \<in> set initialShots. get_prop s ''status'' = Some (status_value PENDING)"
    using init initial_shots_pending by blast
  have hg: "handleGenerate E w = (process_loop E img initialShots w1)\<lparr>isGenerating := False\<rparr>"
    using handleGenerate_accepts[OF ref key parsed valid] start by (simp add: run_def)
  have steps: "\<forall>n \<le> length initialShots.
      map fst (calls (process_loop E img (take n initialShots) w1)) =
        map fst (calls w) @ take n initialShots"
    by (simp add: calls_process_loop w1)
  have order: "map fst (calls (handleGenerate E w)) = map fst (calls w) @ initialShots"
    by (simp add: hg calls_process_loop w1)
  have count: "length (shots (handleGenerate E w)) = length shotConfigs"
    by (simp add: hg length_shots_process_loop w1 len)
  have each: "is_resolved (shots (handleGenerate E w) ! i)
            \<and> (\<forall>k. k \<notin> {''id'', ''status'', ''imageUrl'', ''error''} \<longrightarrow>
                  get_prop (shots (handleGenerate E w) ! i) k = get_prop (spread (shotConfigs ! i)) k)"
    if i: "i < length shotConfigs" for i
  proof -
    have li: "i < length (shots w1)" using i len w1 by simp
    have mem: "initialShots ! i \<in> set initialShots" using i len by simp
    obtain sid where sid: "get_prop (initialShots ! i) ''id'' = Some (JString sid)"
      using initial_shots_id_string mem init by blast
    have "\<exists>x \<in> set initialShots.
            strict_equals (get_prop (shots w1 ! i) ''id'') (get_prop x ''id'')"
      using mem sid w1 by (intro bexI[of _ "initialShots ! i"]) simp_all
    then have res: "is_resolved (shots (process_loop E img initialShots w1) ! i)"
      using process_loop_resolved[OF li] by blast
    have frame: "get_prop (shots (process_loop E img initialShots w1) ! i) k =
                 get_prop (spread (shotConfigs ! i)) k"
      if k: "k \<notin> {''id'', ''status'', ''imageUrl'', ''error''}" for k
    proof -
      have "get_prop (shots (process_loop E img initialShots w1) ! i) k = get_prop (shots w1 ! i) k"
        using process_loop_frame[OF li] k by simp
      also have "\<dots> = get_prop (new_shot E (randoms w + i) (shotConfigs ! i)) k"
        using i by (simp add: w1 init nth_initial_shots)
      also have "\<dots> = get_prop (spread (shotConfigs ! i)) k"
        using k by (simp add: new_shot_other)
      finally show ?thesis .
    qed
    show ?thesis using res frame by (simp add: hg)
  qed
  show ?thesis
    using len w1 pending hg steps order count each by blast
qed

theorem handleGenerate_resolves_every_shot_witness:
  "length (shots (handleGenerate example_env example_world)) = 2
   \<and> is_resolved (shots (handleGenerate example_env example_world) ! 0)
   \<and> is_resolved (shots (handleGenerate example_env example_world) ! 1)
   \<and> get_prop (shots (handleGenerate example_env example_world) ! 1) ''prompt'' = Some (JString ''B'')
   \<and> map fst (calls (handleGenerate example_env example_world)) =
       initial_shots example_env 0 example_configs"
proof -
  have ref: "refImage example_world = Some ''data:image/png;base64,LARGE''"
            "''data:image/png;base64,LARGE'' \<noteq> []"
    by (simp_all add: example_world_def)
  have key: "isApiKeyAvailable example_env"
    by (simp add: isApiKeyAvailable_def example_env_def)
  have parsed: "JSON_parse example_env (jsonInput example_world) = Some (JArray example_configs)"
    by (simp add: example_env_def example_world_def)
  have valid: "every_item_ok example_configs = Some True"
    by (simp add: example_configs_def item_ok_def get_prop_def)
  have start: "start_run example_env example_configs (example_world\<lparr>validationError := None\<rparr>) =
      (initial_shots example_env 0 example_configs,
       snd (start_run example_env example_configs (example_world\<lparr>validationError := None\<rparr>)))"
    by (simp add: start_run_def Let_def example_world_def)
  have two: "length example_configs = 2"
    "get_prop (spread (example_configs ! 1)) ''prompt'' = Some (JString ''B'')"
    by (simp_all add: example_configs_def get_prop_def)
  have nocalls: "calls example_world = []" by (simp add: example_world_def)
  note run = handleGenerate_resolves_every_shot[OF ref key parsed valid start]
  let ?h = "handleGenerate example_env example_world"
  have count: "length (shots ?h) = length example_configs"
    using run by blast
  have order: "map fst (calls ?h) =
      map fst (calls example_world) @ initial_shots example_env 0 example_configs"
    using run by blast
  have each: "\<forall>i < length example_configs.
      is_resolved (shots ?h ! i)
      \<and> (\<forall>k. k \<notin> {''id'', ''status'', ''imageUrl'', ''error''} \<longrightarrow>
            get_prop (shots ?h ! i) k = get_prop (spread (example_configs ! i)) k)"
    using run by blast
  have r0: "is_resolved (shots ?h ! 0)" and r1: "is_resolved (shots ?h ! 1)"
    using each two(1) by simp_all
  have "get_prop (shots ?h ! 1) ''prompt'' = get_prop (spread (example_configs ! 1)) ''prompt''"
    using each two(1) by simp
  then have p1: "get_prop (shots ?h ! 1) ''prompt'' = Some (JString ''B'')"
    using two(2) by simp
  show ?thesis
    using count order r0 r1 p1 two(1) nocalls by simp
qed

text \<open>
  Claim C7. When the call for the record at position \<open>i\<close> fails with message \<open>m\<close>, the
  iteration sets that record to \<open>ERROR\<close> with \<open>m\<close> as its error; the run then goes on with
  the records after \<open>i\<close>: the call log of the whole run lists every record once, in input
  order, and every record ends resolved. When no later record has the id of record \<open>i\<close>,
  record \<open>i\<close> still reads \<open>ERROR\<close> with \<open>m\<close> at the end of the run.
\<close>

theorem failed_shot_does_not_stop_run:
  assumes start: "start_run E shotConfigs w = (initialShots, w1)"
    and i: "i < length initialShots"
    and fail: "generateStoryboardFrame E (length (calls w) + i) img (initialShots ! i) = Inl m"
  shows "get_prop (shots (process_loop E img (take (Suc i) initialShots) w1) ! i) ''status'' =
           Some (status_value ERROR)
       \<and> get_prop (shots (process_loop E img (take (Suc i) initialShots) w1) ! i) ''error'' =
           Some (JString m)
       \<and> run E img shotConfigs w =
           (process_loop E img (drop (Suc i) initialShots)
              (process_loop E img (take (Suc i) initialShots) w1))\<lparr>isGenerating := False\<rparr>
       \<and> map fst (calls (run E img shotConfigs w)) = map fst (calls w) @ initialShots
       \<and> (\<forall>j < length initialShots. is_resolved (shots (run E img shotConfigs w) ! j))
       \<and> ((\<forall>j. i < j \<and> j < length initialShots \<longrightarrow>
               get_prop (initialShots ! j) ''id'' \<noteq> get_prop (initialShots ! i) ''id'') \<longrightarrow>
            get_prop (shots (run E img shotConfigs w) ! i) ''status'' = Some (status_value ERROR)
            \<and> get_prop (shots (run E img shotConfigs w) ! i) ''error'' = Some (JString m))"
proof -
  let ?before = "process_loop E img (take i initialShots) w1"
  let ?after = "process_loop E img (take (Suc i) initialShots) w1"
  let ?x = "initialShots ! i"
  have init: "initialShots = initial_shots E (randoms w) shotConfigs"
    using start by (auto simp: start_run_def Let_def)
  have w1: "shots w1 = initialShots" "calls w1 = calls w"
    using start by (auto simp: start_run_def Let_def)
  have run: "run E img shotConfigs w = (process_loop E img initialShots w1)\<lparr>isGenerating := False\<rparr>"
    using start by (simp add: run_def)
  obtain sid where sid: "get_prop ?x ''id'' = Some (JString sid)"
    using initial_shots_id_string[of ?x E "randoms w" shotConfigs] i init by auto
  have step: "?after = process_shot E img ?x ?before"
    using i by (simp add: take_Suc_conv_app_nth process_loop_append)
  have n: "length (calls ?before) = length (calls w) + i"
    using i by (simp add: length_calls_process_loop w1)
  have li: "i < length (shots ?before)"
    using i by (simp add: length_shots_process_loop w1)
  have id_before: "get_prop (shots ?before ! i) ''id'' = Some (JString sid)"
    using process_loop_frame[of i w1 "''id''" E img "take i initialShots"] i w1 sid by simp
  have shots_after: "shots ?after = settle ?x (Inl m) (shots ?before)"
    by (simp add: step shots_process_shot n fail)
  have match: "strict_equals (get_prop (shots ?before ! i) ''id'') (get_prop ?x ''id'')"
    using id_before sid by simp
  have err: "get_prop (shots ?after ! i) ''status'' = Some (status_value ERROR)
           \<and> get_prop (shots ?after ! i) ''error'' = Some (JString m)"
    using nth_settle_error[OF li match] shots_after by simp
  have split: "process_loop E img initialShots w1 =
      process_loop E img (drop (Suc i) initialShots) ?after"
    using process_loop_append[of E img "take (Suc i) initialShots" "drop (Suc i) initialShots" w1]
    by simp
  have order: "map fst (calls (run E img shotConfigs w)) = map fst (calls w) @ initialShots"
    by (simp add: run calls_process_loop w1)
  have resolved: "is_resolved (shots (run E img shotConfigs w) ! j)"
    if j: "j < length initialShots" for j
  proof -
    obtain t where t: "get_prop (initialShots ! j) ''id'' = Some (JString t)"
      using initial_shots_id_string[of "initialShots ! j" E "randoms w" shotConfigs] j init
      by auto
    have lj: "j < length (shots w1)" using j w1 by simp
    have "\<exists>x \<in> set initialShots.
            strict_equals (get_prop (shots w1 ! j) ''id'') (get_prop x ''id'')"
      using j t w1 by (intro bexI[of _ "initialShots ! j"]) simp_all
    then have "is_resolved (shots (process_loop E img initialShots w1) ! j)"
      using process_loop_resolved[OF lj] by blast
    then show ?thesis by (simp add: run)
  qed
  have final: "get_prop (shots (run E img shotConfigs w) ! i) ''status'' = Some (status_value ERROR)
             \<and> get_prop (shots (run E img shotConfigs w) ! i) ''error'' = Some (JString m)"
    if d: "\<forall>j. i < j \<and> j < length initialShots \<longrightarrow>
             get_prop (initialShots ! j) ''id'' \<noteq> get_prop (initialShots ! i) ''id''"
  proof -
    have la: "i < length (shots ?after)"
      using i by (simp add: length_shots_process_loop w1)
    have id_after: "get_prop (shots ?after ! i) ''id'' = Some (JString sid)"
      using li id_before by (simp add: shots_after nth_settle_frame)
    have "\<not> strict_equals (get_prop (shots ?after ! i) ''id'') (get_prop x ''id'')"
      if x: "x \<in> set (drop (Suc i) initialShots)" for x
    proof -
      obtain j where j: "x = initialShots ! j" "i < j" "j < length initialShots"
        using x by (auto simp: in_set_conv_nth)
      then have "get_prop x ''id'' \<noteq> Some (JString sid)" using d sid by auto
      then show ?thesis using id_after by simp
    qed
    then have "shots (process_loop E img (drop (Suc i) initialShots) ?after) ! i = shots ?after ! i"
      using process_loop_untouched[OF la] by blast
    then show ?thesis using err by (simp add: run split)
  qed
  show ?thesis
    using err run split order resolved final by simp
qed

theorem failed_shot_does_not_stop_run_witness:
  "get_prop (shots (run failing_first_env ''data:image/png;base64,LARGE'' example_configs
       example_world) ! 0) ''status'' = Some (status_value ERROR)
   \<and> get_prop (shots (run failing_first_env ''data:image/png;base64,LARGE'' example_configs
       example_world) ! 0) ''error'' = Some (JString ''Rpc failed due to xhr error'')
   \<and> is_resolved (shots (run failing_first_env ''data:image/png;base64,LARGE'' example_configs
       example_world) ! 1)
   \<and> map fst (calls (run failing_first_env ''data:image/png;base64,LARGE'' example_configs
       example_world)) = initial_shots failing_first_env 0 example_configs"
proof -
  let ?E = failing_first_env
  let ?img = "''data:image/png;base64,LARGE''"
  let ?xs = "initial_shots ?E 0 example_configs"
  let ?w1 = "snd (start_run ?E example_configs example_world)"
  let ?r = "run ?E ?img example_configs example_world"
  have start: "start_run ?E example_configs example_world = (?xs, ?w1)"
    by (simp add: start_run_def Let_def example_world_def)
  have len: "length ?xs = 2"
    by (simp add: length_initial_shots example_configs_def)
  have i: "0 < length ?xs" using len by simp
  have nocalls: "calls example_world = []" by (simp add: example_world_def)
  have fail: "generateStoryboardFrame ?E (length (calls example_world) + 0) ?img (?xs ! 0) =
      Inl ''Rpc failed due to xhr error''"
    by (simp add: nocalls generateStoryboardFrame_def try_block_def failing_first_env_def)
  have ids: "get_prop (?xs ! 0) ''id'' = Some (JString ''82mvyr'')"
    "get_prop (?xs ! 1) ''id'' = Some (JString ''q0k3td'')"
    by (simp_all add: nth_initial_shots example_configs_def new_shot_id generateId_def
        failing_first_env_def example_env_def)
  have distinct: "\<forall>j. 0 < j \<and> j < length ?xs \<longrightarrow>
      get_prop (?xs ! j) ''id'' \<noteq> get_prop (?xs ! 0) ''id''"
  proof (intro allI impI)
    fix j assume "0 < j \<and> j < length ?xs"
    then have "j = 1" using len by simp
    then show "get_prop (?xs ! j) ''id'' \<noteq> get_prop (?xs ! 0) ''id''"
      using ids by simp
  qed
  note t = failed_shot_does_not_stop_run[OF start i fail]
  have order: "map fst (calls ?r) = map fst (calls example_world) @ ?xs"
    using t by (elim conjE)
  have all_resolved: "\<forall>j < length ?xs. is_resolved (shots ?r ! j)"
    using t by (elim conjE)
  have "(\<forall>j. 0 < j \<and> j < length ?xs \<longrightarrow>
            get_prop (?xs ! j) ''id'' \<noteq> get_prop (?xs ! 0) ''id'') \<longrightarrow>
        get_prop (shots ?r ! 0) ''status'' = Some (status_value ERROR)
        \<and> get_prop (shots ?r ! 0) ''error'' = Some (JString ''Rpc failed due to xhr error'')"
    using t by (elim conjE)
  then have err: "get_prop (shots ?r ! 0) ''status'' = Some (status_value ERROR)
        \<and> get_prop (shots ?r ! 0) ''error'' = Some (JString ''Rpc failed due to xhr error'')"
    using distinct by blast
  have r1: "is_resolved (shots ?r ! 1)" using all_resolved len by simp
  show ?thesis using err r1 order nocalls by simp
qed

text \<open>
  Claim C9. A status update (the one \<open>process_shot\<close> applies, for either outcome) keeps the
  length of the list; in every record it keeps \<open>id\<close>, \<open>shot_type\<close>, \<open>aspect_ratio\<close> and
  \<open>prompt\<close>, indeed every property other than \<open>status\<close>, \<open>imageUrl\<close> and \<open>error\<close>; and a
  record whose id is not the one of the processed shot is left as it is.
\<close>

theorem status_update_touches_only_result_fields:
  "shots (process_shot E img sh w) =
     settle sh (generateStoryboardFrame E (length (calls w)) img sh) (shots w)
   \<and> length (settle sh outcome prev) = length prev
   \<and> (\<forall>i < length prev.
         (\<forall>k \<in> {''id'', ''shot_type'', ''aspect_ratio'', ''prompt''}.
            get_prop (settle sh outcome prev ! i) k = get_prop (prev ! i) k)
         \<and> (\<forall>k. k \<notin> {''status'', ''imageUrl'', ''error''} \<longrightarrow>
               get_prop (settle sh outcome prev ! i) k = get_prop (prev ! i) k)
         \<and> (\<not> strict_equals (get_prop (prev ! i) ''id'') (get_prop sh ''id'') \<longrightarrow>
               settle sh outcome prev ! i = prev ! i))"
proof (intro conjI allI impI ballI)
  show "shots (process_shot E img sh w) =
      settle sh (generateStoryboardFrame E (length (calls w)) img sh) (shots w)"
    by (rule shots_process_shot)
  show "length (settle sh outcome prev) = length prev"
    by (rule length_settle)
next
  fix i k
  assume i: "i < length prev" and k: "k \<in> {''id'', ''shot_type'', ''aspect_ratio'', ''prompt''}"
  have "k \<noteq> ''status'' \<and> k \<noteq> ''imageUrl'' \<and> k \<noteq> ''error''"
    using k by (elim insertE emptyE) simp_all
  then show "get_prop (settle sh outcome prev ! i) k = get_prop (prev ! i) k"
    using i by (simp add: nth_settle_frame)
next
  fix i k
  assume i: "i < length prev" and k: "k \<notin> {''status'', ''imageUrl'', ''error''}"
  then show "get_prop (settle sh outcome prev ! i) k = get_prop (prev ! i) k"
    by (simp add: nth_settle_frame)
next
  fix i
  assume "i < length prev"
    and "\<not> strict_equals (get_prop (prev ! i) ''id'') (get_prop sh ''id'')"
  then show "settle sh outcome prev ! i = prev ! i"
    by (rule nth_settle_other)
qed

theorem status_update_touches_only_result_fields_witness:
  "get_prop (settle [(''id'', JString ''a1'')] (Inr ''data:image/png;base64,QQ=='')
       [[(''prompt'', JString ''A''), (''id'', JString ''a1''), (''status'', JString ''PENDING'')],
        [(''prompt'', JString ''B''), (''id'', JString ''b2''), (''status'', JString ''PENDING'')]] ! 0)
     ''prompt'' = Some (JString ''A'')
   \<and> settle [(''id'', JString ''a1'')] (Inr ''data:image/png;base64,QQ=='')
       [[(''prompt'', JString ''A''), (''id'', JString ''a1''), (''status'', JString ''PENDING'')],
        [(''prompt'', JString ''B''), (''id'', JString ''b2''), (''status'', JString ''PENDING'')]] ! 1
     = [(''prompt'', JString ''B''), (''id'', JString ''b2''), (''status'', JString ''PENDING'')]"
proof -
  let ?sh = "[(''id'', JString ''a1'')]"
  let ?prev = "[[(''prompt'', JString ''A''), (''id'', JString ''a1''), (''status'', JString ''PENDING'')],
        [(''prompt'', JString ''B''), (''id'', JString ''b2''), (''status'', JString ''PENDING'')]]"
  let ?out = "Inr ''data:image/png;base64,QQ=='' :: string + string"
  note t = status_update_touches_only_result_fields[of undefined undefined ?sh undefined ?out ?prev]
  have each: "\<forall>i < length ?prev.
         (\<forall>k \<in> {''id'', ''shot_type'', ''aspect_ratio'', ''prompt''}.
            get_prop (settle ?sh ?out ?prev ! i) k = get_prop (?prev ! i) k)
         \<and> (\<forall>k. k \<notin> {''status'', ''imageUrl'', ''error''} \<longrightarrow>
               get_prop (settle ?sh ?out ?prev ! i) k = get_prop (?prev ! i) k)
         \<and> (\<not> strict_equals (get_prop (?prev ! i) ''id'') (get_prop ?sh ''id'') \<longrightarrow>
               settle ?sh ?out ?prev ! i = ?prev ! i)"
    using t by (elim conjE)
  have a: "get_prop (settle ?sh ?out ?prev ! 0) ''prompt'' = get_prop (?prev ! 0) ''prompt''"
    using each by simp
  have "\<not> strict_equals (get_prop (?prev ! 1) ''id'') (get_prop ?sh ''id'')"
    by (simp add: get_prop_def)
  then have b: "settle ?sh ?out ?prev ! 1 = ?prev ! 1"
    using each by simp
  show ?thesis using a b by (simp add: get_prop_def)
qed

text \<open>
  Claim C10. After \<open>handleClear\<close> the result list is empty and the generating flag is off.
  Any status update of a prior run applied to the cleared state leaves the list empty, and
  so does the rest of that run's loop, whatever records remain; apart from the log of the
  calls made, the state after that loop and its closing \<open>setIsGenerating(false)\<close> is the
  cleared state.
\<close>

theorem cleared_state_is_stable:
  "shots (handleClear w) = []
   \<and> isGenerating (handleClear w) = False
   \<and> settle sh outcome (shots (handleClear w)) = []
   \<and> shots (process_shot E img sh (handleClear w)) = []
   \<and> shots (process_loop E img remaining (handleClear w)) = []
   \<and> (process_loop E img remaining (handleClear w))
        \<lparr>isGenerating := False, calls := calls (handleClear w)\<rparr> = handleClear w"
proof -
  have s: "shots (handleClear w) = []" and g: "isGenerating (handleClear w) = False"
    by (simp_all add: handleClear_def)
  have loop: "shots (process_loop E img remaining (handleClear w)) = []"
    using s by (rule shots_process_loop_Nil)
  have one: "shots (process_shot E img sh (handleClear w)) = []"
    using s by (simp add: shots_process_shot settle_Nil)
  have "process_loop E img remaining (handleClear w) =
      (handleClear w)\<lparr>shots := [], calls := calls (process_loop E img remaining (handleClear w))\<rparr>"
    using process_loop_eq[of E img remaining "handleClear w"] loop by simp
  then have "(process_loop E img remaining (handleClear w))
        \<lparr>isGenerating := False, calls := calls (handleClear w)\<rparr> =
      (handleClear w)\<lparr>shots := [], calls := calls (process_loop E img remaining (handleClear w))\<rparr>
        \<lparr>isGenerating := False, calls := calls (handleClear w)\<rparr>"
    by simp
  also have "\<dots> = handleClear w"
    by (simp add: handleClear_def)
  finally show ?thesis
    using s g loop one by (simp add: settle_Nil)
qed

theorem cleared_state_is_stable_witness:
  "shots (handleClear (handleGenerate example_env example_world)) = []
   \<and> shots (process_loop example_env ''data:image/png;base64,LARGE''
        (initial_shots example_env 0 example_configs)
        (handleClear (handleGenerate example_env example_world))) = []"
  using cleared_state_is_stable[of "handleGenerate example_env example_world" undefined undefined
      example_env "''data:image/png;base64,LARGE''" "initial_shots example_env 0 example_configs"]
  by simp

text \<open>
  Claim C2, at an input where it fails. \<open>Math.random()\<close> returns 0.5 and then 0.25:
  both ids are the empty string. The update for the first shot then marks the second
  record as well, and after the run the first record reads \<open>ERROR\<close> although its own call
  returned an image.
\<close>

theorem generateId_collision:
  "generateId colliding_env 0 = generateId colliding_env 1
   \<and> get_prop (initial_shots colliding_env 0 example_configs ! 0) ''id'' =
       get_prop (initial_shots colliding_env 0 example_configs ! 1) ''id''
   \<and> get_prop
        (settle (initial_shots colliding_env 0 example_configs ! 0)
           (Inr ''data:image/png;base64,iVBORw0KGgo='')
           (initial_shots colliding_env 0 example_configs) ! 1) ''status'' =
       Some (status_value SUCCESS)
   \<and> snd (calls (handleGenerate colliding_env example_world) ! 0) =
       Inr ''data:image/png;base64,iVBORw0KGgo=''
   \<and> get_prop (shots (handleGenerate colliding_env example_world) ! 0) ''status'' =
       Some (status_value ERROR)"
proof -
  have ids: "get_prop (initial_shots colliding_env 0 example_configs ! 0) ''id'' = Some (JString [])"
    "get_prop (initial_shots colliding_env 0 example_configs ! 1) ''id'' = Some (JString [])"
    using colliding_ids by (simp_all add: nth_initial_shots example_configs_def new_shot_id)
  have len: "1 < length (initial_shots colliding_env 0 example_configs)"
    by (simp add: length_initial_shots example_configs_def)
  have "strict_equals (get_prop (initial_shots colliding_env 0 example_configs ! 1) ''id'')
          (get_prop (initial_shots colliding_env 0 example_configs ! 0) ''id'')"
    using ids by simp
  then have first: "get_prop
        (settle (initial_shots colliding_env 0 example_configs ! 0)
           (Inr ''data:image/png;base64,iVBORw0KGgo='')
           (initial_shots colliding_env 0 example_configs) ! 1) ''status'' =
       Some (status_value SUCCESS)"
    using nth_settle_success[OF len] by simp
  show ?thesis
    using first ids colliding_ids colliding_run by simp
qed

subsection \<open>Validation\<close>

text \<open>
  Claim C8. When the shot list is not parseable, is not an array, or contains an object
  without \<open>shot_type\<close> or \<open>prompt\<close>, \<open>handleGenerate\<close> makes no call and leaves the result
  list as it is; with a reference image present it sets the validation error to one of
  the three fixed messages (which one is stated case by case), and without one it shows
  the missing-reference alert. A list of objects with truthy
  \<open>shot_type\<close> and \<open>prompt\<close> is accepted whatever else the objects hold or lack, so
  without \<open>aspect_ratio\<close> too, and with the reference image and the API key the run starts
  and makes one call per shot.
\<close>

theorem invalid_shot_list_blocks_generation:
  "(invalid_shot_list (JSON_parse E (jsonInput w)) \<longrightarrow>
      calls (handleGenerate E w) = calls w
      \<and> shots (handleGenerate E w) = shots w
      \<and> (refImage w = None \<or> refImage w = Some [] \<longrightarrow>
            alerts (handleGenerate E w) = alerts w @ [no_reference_alert])
      \<and> (\<forall>img. refImage w = Some img \<and> img \<noteq> [] \<longrightarrow>
            validationError (handleGenerate E w) \<in>
              {Some invalid_json_message, Some must_be_array_message, Some missing_fields_message}
            \<and> (JSON_parse E (jsonInput w) = None \<longrightarrow>
                  validationError (handleGenerate E w) = Some invalid_json_message)
            \<and> (\<forall>v. JSON_parse E (jsonInput w) = Some v \<and> (\<forall>items. v \<noteq> JArray items) \<longrightarrow>
                  validationError (handleGenerate E w) = Some must_be_array_message)
            \<and> (\<forall>items. JSON_parse E (jsonInput w) = Some (JArray items) \<and> JNull \<notin> set items \<longrightarrow>
                  validationError (handleGenerate E w) = Some missing_fields_message)))
   \<and> (\<forall>items. JSON_parse E (jsonInput w) = Some (JArray items)
          \<and> (\<forall>x \<in> set items. \<exists>kvs. x = JObject kvs \<and> truthy (get_prop kvs ''shot_type'')
                \<and> truthy (get_prop kvs ''prompt'')) \<longrightarrow>
        validateAndParseJson E w = (Some items, w\<lparr>validationError := None\<rparr>)
        \<and> (\<forall>img. refImage w = Some img \<and> img \<noteq> [] \<and> isApiKeyAvailable E \<longrightarrow>
              handleGenerate E w = run E img items (w\<lparr>validationError := None\<rparr>)
              \<and> length (calls (handleGenerate E w)) = length (calls w) + length items))"
proof (intro conjI impI allI)
  assume bad: "invalid_shot_list (JSON_parse E (jsonInput w))"
  have none: "fst (validateAndParseJson E w) = None"
    using invalid_shot_list_rejected[OF bad] by simp
  show "calls (handleGenerate E w) = calls w" "shots (handleGenerate E w) = shots w"
    using handleGenerate_blocked[OF none] by simp_all
next
  assume bad: "invalid_shot_list (JSON_parse E (jsonInput w))"
    and ref: "refImage w = None \<or> refImage w = Some []"
  have none: "fst (validateAndParseJson E w) = None"
    using invalid_shot_list_rejected[OF bad] by simp
  have "handleGenerate E w = w\<lparr>alerts := alerts w @ [no_reference_alert]\<rparr>"
    using handleGenerate_blocked[OF none] ref by blast
  then show "alerts (handleGenerate E w) = alerts w @ [no_reference_alert]"
    by simp
next
  fix img
  assume bad: "invalid_shot_list (JSON_parse E (jsonInput w))"
    and ref: "refImage w = Some img \<and> img \<noteq> []"
  have none: "fst (validateAndParseJson E w) = None"
    using invalid_shot_list_rejected[OF bad] by simp
  have hg: "handleGenerate E w = snd (validateAndParseJson E w)"
    using handleGenerate_blocked[OF none] ref by simp
  show "validationError (handleGenerate E w) \<in>
      {Some invalid_json_message, Some must_be_array_message, Some missing_fields_message}"
    using invalid_shot_list_rejected[OF bad] hg by simp
  show "validationError (handleGenerate E w) = Some invalid_json_message"
    if "JSON_parse E (jsonInput w) = None"
    using that validate_messages[of E w] hg by simp
  show "validationError (handleGenerate E w) = Some must_be_array_message"
    if "JSON_parse E (jsonInput w) = Some v \<and> (\<forall>items. v \<noteq> JArray items)" for v
    using that validate_messages[of E w] hg by simp
  show "validationError (handleGenerate E w) = Some missing_fields_message"
    if p: "JSON_parse E (jsonInput w) = Some (JArray items) \<and> JNull \<notin> set items" for items
  proof -
    have "list_ex lacks_field items"
      using bad p by (simp add: invalid_shot_list_def)
    then show ?thesis using p validate_messages[of E w] hg by simp
  qed
next
  fix items
  assume ok: "JSON_parse E (jsonInput w) = Some (JArray items)
      \<and> (\<forall>x \<in> set items. \<exists>kvs. x = JObject kvs \<and> truthy (get_prop kvs ''shot_type'')
            \<and> truthy (get_prop kvs ''prompt''))"
  then have valid: "every_item_ok items = Some True"
    by (simp add: every_item_ok_True item_ok_True)
  show v: "validateAndParseJson E w = (Some items, w\<lparr>validationError := None\<rparr>)"
    using ok valid by (simp add: validate_accepts)
  fix img
  assume ref: "refImage w = Some img \<and> img \<noteq> [] \<and> isApiKeyAvailable E"
  show hg: "handleGenerate E w = run E img items (w\<lparr>validationError := None\<rparr>)"
    using ref ok valid by (simp add: handleGenerate_accepts)
  show "length (calls (handleGenerate E w)) = length (calls w) + length items"
    by (simp add: hg run_eq length_calls_process_loop length_initial_shots)
qed

theorem invalid_shot_list_blocks_generation_witness:
  "validationError (handleGenerate example_env (example_world\<lparr>jsonInput := ''nonsense''\<rparr>)) =
     Some invalid_json_message
   \<and> validationError (handleGenerate example_env (example_world\<lparr>jsonInput := ''{}''\<rparr>)) =
       Some must_be_array_message
   \<and> validationError
        (handleGenerate example_env (example_world\<lparr>jsonInput := ''[{\"prompt\":\"A\"}]''\<rparr>)) =
       Some missing_fields_message
   \<and> calls (handleGenerate example_env (example_world\<lparr>jsonInput := ''[{\"prompt\":\"A\"}]''\<rparr>)) = []
   \<and> shots (handleGenerate example_env (example_world\<lparr>jsonInput := ''[{\"prompt\":\"A\"}]''\<rparr>)) = []
   \<and> get_prop (spread (example_configs ! 0)) ''aspect_ratio'' = None
   \<and> validateAndParseJson example_env example_world =
       (Some example_configs, example_world\<lparr>validationError := None\<rparr>)
   \<and> length (calls (handleGenerate example_env example_world)) = 2"
proof -
  let ?E = example_env
  let ?img = "''data:image/png;base64,LARGE''"
  let ?a = "example_world\<lparr>jsonInput := ''nonsense''\<rparr>"
  let ?b = "example_world\<lparr>jsonInput := ''{}''\<rparr>"
  let ?c = "example_world\<lparr>jsonInput := ''[{\"prompt\":\"A\"}]''\<rparr>"
  have ref: "refImage ?a = Some ?img \<and> ?img \<noteq> []" "refImage ?b = Some ?img \<and> ?img \<noteq> []"
    "refImage ?c = Some ?img \<and> ?img \<noteq> []"
    by (simp_all add: example_world_def)
  have pa: "JSON_parse ?E (jsonInput ?a) = None"
    by (simp add: example_env_def example_json_def)
  have pb: "JSON_parse ?E (jsonInput ?b) = Some (JObject []) \<and> (\<forall>items. JObject [] \<noteq> JArray items)"
    by (simp add: example_env_def example_json_def)
  have pc: "JSON_parse ?E (jsonInput ?c) = Some (JArray [JObject [(''prompt'', JString ''A'')]])
      \<and> JNull \<notin> set [JObject [(''prompt'', JString ''A'')]]"
    by (simp add: example_env_def example_json_def)
  have bad: "invalid_shot_list (JSON_parse ?E (jsonInput ?a))"
    "invalid_shot_list (JSON_parse ?E (jsonInput ?b))"
    "invalid_shot_list (JSON_parse ?E (jsonInput ?c))"
    using pa pb pc by (simp_all add: invalid_shot_list_def lacks_field_def get_prop_def)
  note ta = invalid_shot_list_blocks_generation[of ?E ?a, THEN conjunct1, THEN mp, OF bad(1)]
  note tb = invalid_shot_list_blocks_generation[of ?E ?b, THEN conjunct1, THEN mp, OF bad(2)]
  note tc = invalid_shot_list_blocks_generation[of ?E ?c, THEN conjunct1, THEN mp, OF bad(3)]
  note ma = ta[THEN conjunct2, THEN conjunct2, THEN conjunct2, THEN spec, THEN mp,
      OF ref(1)]
  note mb = tb[THEN conjunct2, THEN conjunct2, THEN conjunct2, THEN spec, THEN mp,
      OF ref(2)]
  note mc = tc[THEN conjunct2, THEN conjunct2, THEN conjunct2, THEN spec, THEN mp,
      OF ref(3)]
  have 1: "validationError (handleGenerate ?E ?a) = Some invalid_json_message"
    using ma[THEN conjunct2, THEN conjunct1] pa by blast
  have 2: "validationError (handleGenerate ?E ?b) = Some must_be_array_message"
    using mb[THEN conjunct2, THEN conjunct2, THEN conjunct1, THEN spec, THEN mp, OF pb] .
  have 3: "validationError (handleGenerate ?E ?c) = Some missing_fields_message"
    using mc[THEN conjunct2, THEN conjunct2, THEN conjunct2, THEN spec, THEN mp, OF pc] .
  have 4: "calls (handleGenerate ?E ?c) = []" "shots (handleGenerate ?E ?c) = []"
    using tc by (simp_all add: example_world_def)
  have 5: "get_prop (spread (example_configs ! 0)) ''aspect_ratio'' = None"
    by (simp add: example_configs_def get_prop_def)
  have ok: "JSON_parse ?E (jsonInput example_world) = Some (JArray example_configs)
      \<and> (\<forall>x \<in> set example_configs. \<exists>kvs. x = JObject kvs
            \<and> truthy (get_prop kvs ''shot_type'') \<and> truthy (get_prop kvs ''prompt''))"
    by (simp add: example_env_def example_world_def example_configs_def get_prop_def)
  note td = invalid_shot_list_blocks_generation[of ?E example_world, THEN conjunct2, THEN spec,
      THEN mp, OF ok]
  have run: "refImage example_world = Some ?img \<and> ?img \<noteq> [] \<and> isApiKeyAvailable ?E"
    by (simp add: example_world_def example_env_def isApiKeyAvailable_def)
  have 6: "validateAndParseJson ?E example_world =
      (Some example_configs, example_world\<lparr>validationError := None\<rparr>)"
    using td by (rule conjunct1)
  have 7: "length (calls (handleGenerate ?E example_world)) = 2"
    using td[THEN conjunct2, THEN spec, THEN mp, OF run, THEN conjunct2]
    by (simp add: example_world_def example_configs_def)
  show ?thesis using 1 2 3 4 5 6 7 by simp
qed

subsection \<open>Generation client\<close>

text \<open>
  Claim C3, as amended. A rejected call with message \<open>m\<close> makes \<open>generateStoryboardFrame\<close>
  throw: with \<open>m\<close> itself when \<open>m\<close> is not empty, with the fixed text
  \<open>Failed to generate image\<close> when it is. A response none of whose candidates has a part
  with non-empty inline data makes it throw in the same way, and with the no-image message
  when the first candidate has its content and parts. A successful result is the data-URI
  prefix followed by non-empty data.
\<close>

theorem generateStoryboardFrame_error_or_image:
  "(\<forall>m. generateContent E n (build_request E img sh) = Inl m \<longrightarrow>
      generateStoryboardFrame E n img sh =
        Inl (if m \<noteq> [] then m else ''Failed to generate image''))
   \<and> (\<forall>r. generateContent E n (build_request E img sh) = Inr r \<and> \<not> has_inline_image r \<longrightarrow>
         (\<exists>m. extract_image E r = Inl m
            \<and> generateStoryboardFrame E n img sh =
                Inl (if m \<noteq> [] then m else ''Failed to generate image''))
         \<and> (first_candidate_complete r \<longrightarrow>
               generateStoryboardFrame E n img sh = Inl no_image_message))
   \<and> (\<forall>url. generateStoryboardFrame E n img sh = Inr url \<longrightarrow>
         (\<exists>d. d \<noteq> [] \<and> url = ''data:image/png;base64,'' @ d))"
proof (intro conjI allI impI)
  fix m assume "generateContent E n (build_request E img sh) = Inl m"
  then show "generateStoryboardFrame E n img sh =
      Inl (if m \<noteq> [] then m else ''Failed to generate image'')"
    by (rule generateStoryboardFrame_rejected)
next
  fix r assume a: "generateContent E n (build_request E img sh) = Inr r \<and> \<not> has_inline_image r"
  then obtain m where m: "extract_image E r = Inl m"
    using extract_image_has_image by (cases "extract_image E r") auto
  then show "\<exists>m. extract_image E r = Inl m
      \<and> generateStoryboardFrame E n img sh =
          Inl (if m \<noteq> [] then m else ''Failed to generate image'')"
    using a by (simp add: generateStoryboardFrame_response)
next
  fix r assume a: "generateContent E n (build_request E img sh) = Inr r \<and> \<not> has_inline_image r"
    and c: "first_candidate_complete r"
  have "extract_image E r = Inl no_image_message"
    using a c by (simp add: extract_image_complete)
  then show "generateStoryboardFrame E n img sh = Inl no_image_message"
    using a by (simp add: generateStoryboardFrame_response no_image_message_nonempty)
next
  fix url assume u: "generateStoryboardFrame E n img sh = Inr url"
  show "\<exists>d. d \<noteq> [] \<and> url = ''data:image/png;base64,'' @ d"
  proof (cases "generateContent E n (build_request E img sh)")
    case (Inl m)
    then show ?thesis using u by (simp add: generateStoryboardFrame_rejected)
  next
    case (Inr r)
    then have "extract_image E r = Inr url"
      using u by (simp add: generateStoryboardFrame_response split: sum.splits)
    then show ?thesis by (rule extract_image_Inr)
  qed
qed

theorem generateStoryboardFrame_error_or_image_witness:
  "generateStoryboardFrame example_env 1 ''data:image/png;base64,LARGE'' [] =
     Inl ''Rpc failed due to xhr error''
   \<and> generateStoryboardFrame example_env 2 ''data:image/png;base64,LARGE'' [] =
       Inl no_image_message
   \<and> generateStoryboardFrame silent_failure_env 0 ''data:image/png;base64,LARGE'' [] =
       Inl ''Failed to generate image''"
proof -
  let ?img = "''data:image/png;base64,LARGE''"
  have failed: "generateContent example_env 1 (build_request example_env ?img []) =
      Inl ''Rpc failed due to xhr error''"
    by (simp add: example_env_def)
  have text_only: "generateContent example_env 2 (build_request example_env ?img []) =
      Inr text_only_response"
    by (simp add: example_env_def)
  have silent: "generateContent silent_failure_env 0 (build_request silent_failure_env ?img []) =
      Inl []"
    by (simp add: silent_failure_env_def)
  have no_image: "\<not> has_inline_image text_only_response"
    "first_candidate_complete text_only_response"
    by (simp_all add: has_inline_image_def text_only_response_def candidate_parts_def
        part_has_image_def first_candidate_complete_def)
  have 1: "generateStoryboardFrame example_env 1 ?img [] = Inl ''Rpc failed due to xhr error''"
    using generateStoryboardFrame_error_or_image[of example_env 1 ?img "[]"] failed by simp
  have 2: "generateStoryboardFrame example_env 2 ?img [] = Inl no_image_message"
    using generateStoryboardFrame_error_or_image[of example_env 2 ?img "[]"] text_only no_image
    by blast
  have 3: "generateStoryboardFrame silent_failure_env 0 ?img [] = Inl ''Failed to generate image''"
    using generateStoryboardFrame_error_or_image[of silent_failure_env 0 ?img "[]"] silent by simp
  show ?thesis using 1 2 3 by simp
qed

text \<open>The claim C3 as stated fails: an empty failure message is not passed on unchanged.\<close>

theorem empty_failure_message_is_replaced:
  "try_block silent_failure_env 0 ''data:image/png;base64,LARGE'' [] = Inl []
   \<and> generateStoryboardFrame silent_failure_env 0 ''data:image/png;base64,LARGE'' [] =
       Inl ''Failed to generate image''"
  by (simp add: generateStoryboardFrame_def try_block_def silent_failure_env_def)

end
